theory Spec2Isabelle
  imports Main "HOL-Library.Word" "HOL-Library.Sublist"
begin

section \<open>Values exchanged with the collaborators\<close>

text \<open>
  A Python \<open>str\<close> is a sequence of Unicode code points, a \<open>bytes\<close> value a sequence
  of octets. Chord labels, file paths and the \<open>data\<close> payload of a websocket message are
  all Python strings.
\<close>

type_synonym byte = "8 word"
type_synonym pystr = "nat list"

definition str :: "string \<Rightarrow> pystr" where
  "str s = map of_char s"

text \<open>
  The exceptions that can travel through \<open>src/api/main.py\<close>: the ones the endpoint itself
  names (\<open>WebSocketDisconnect\<close>), the ones its library calls raise (\<open>json.loads\<close>, the
  \<open>**data\<close> call, pydantic validation, \<open>str.encode\<close>), the buffer's back-pressure signal,
  and whatever a collaborator raises (\<open>OSError\<close>, \<open>RuntimeError\<close>).
\<close>

datatype exn =
    WebSocketDisconnect
  | JSONDecodeError
  | TypeError
  | ValidationError
  | UnicodeEncodeError
  | CapacityExceeded
  | OSError
  | RuntimeError

record ChordRequest =
  file_path :: pystr

record ChordResponse =
  chords :: "pystr list"
  accompaniment :: "pystr list"

text \<open>
  The signal-processing and inference functions are imported from sibling packages
  (\<open>load_audio\<close>, \<open>extract_mfcc\<close>, \<open>denoise\<close>, \<open>ChordSuggester.suggest\<close>,
  \<open>AccompanimentGenerator.generate\<close>). The service depends on their call contract only,
  so they are parameters: each either returns a value or raises.
\<close>

record ('a, 'f) collaborators =
  load_audio :: "pystr \<Rightarrow> exn + 'a"
  extract_mfcc :: "'a \<Rightarrow> exn + 'f"
  denoise :: "'f \<Rightarrow> exn + 'f"
  suggest :: "'f \<Rightarrow> exn + pystr list"
  generate :: "pystr list \<Rightarrow> exn + pystr list"

section \<open>Calls made on collaborators\<close>

text \<open>
  Every call the service makes on something outside \<open>main.py\<close> is recorded, in program
  order, together with the way it is dispatched: \<open>await f(...)\<close> on a coroutine,
  \<open>await run_in_threadpool(f, ...)\<close>, or a plain call \<open>f(...)\<close> executed by the event
  loop itself. A call is recorded when it is made, whether it returns or raises.
\<close>

datatype stage = Decode | Extract | Denoise | CacheGet | Suggest | CacheSet | Generate

datatype dispatch = Awaited | Threadpool | Inline

datatype out_msg = Ready | Ack | Ping | Chords "pystr list"

datatype effect =
    Call stage dispatch
  | ManagerConnect
  | ManagerSend out_msg
  | WsSend out_msg
  | BufferAdd "byte list"
  | CancelPing
  | CancelProcess
  | ManagerDisconnect

section \<open>RedisCache\<close>

text \<open>
  Modelled from the spec: \<open>RedisCache\<close> (\<open>src/utils/cache.py\<close>, with its methods
  \<open>get_chords\<close> and \<open>set_chords\<close>) is not among the sources. Sections 3 and 4.2 of the
  specification describe it as a cache-aside store keyed by a deterministic fingerprint of
  the features, each entry kept with its insertion time for a bounded time-to-live:
  \<open>get\<close> returns the cached result or a miss and never fails its caller, a backend
  outage degrading to a miss; \<open>set\<close> is a best-effort write whose failures are not
  surfaced. \<open>startup\<close> in \<open>main.py\<close> builds the cache from a Redis handle that is
  \<open>None\<close> when Redis is missing or unreachable; \<open>backend_up\<close> stands for a usable
  handle. \<open>writable\<close> says whether a reachable backend takes a write, \<open>clock\<close> is the
  backend's time and \<open>ttl\<close> the time-to-live; an entry stored at time \<open>t\<close> is
  readable while the clock is below \<open>t + ttl\<close>. \<open>elapse\<close> is the passing of time
  between two calls.
\<close>

record 'f RedisCache =
  backend_up :: bool
  writable :: bool
  fingerprint :: "'f \<Rightarrow> nat"
  clock :: nat
  ttl :: nat
  entries :: "nat \<rightharpoonup> pystr list \<times> nat"

definition get_chords :: "'f RedisCache \<Rightarrow> 'f \<Rightarrow> pystr list option" where
  "get_chords c features =
     (if backend_up c then
        (case entries c (fingerprint c features) of
           None \<Rightarrow> None
         | Some (chs, stored) \<Rightarrow> if clock c < stored + ttl c then Some chs else None)
      else None)"

definition set_chords :: "'f RedisCache \<Rightarrow> 'f \<Rightarrow> pystr list \<Rightarrow> 'f RedisCache" where
  "set_chords c features chs =
     (if backend_up c \<and> writable c
      then c\<lparr>entries := (entries c)(fingerprint c features \<mapsto> (chs, clock c))\<rparr>
      else c)"


section \<open>MusicService\<close>

text \<open>
  A coroutine of the request path runs against the shared cache and extends the record of
  calls; it ends with a value or with the exception that escaped it.
\<close>

record 'f world =
  cache :: "'f RedisCache"
  trace :: "effect list"

type_synonym ('f, 'r) io = "'f world \<Rightarrow> 'f world \<times> (exn + 'r)"

definition return_io :: "'r \<Rightarrow> ('f, 'r) io" where
  "return_io r w = (w, Inr r)"

definition bind_io :: "('f, 'r) io \<Rightarrow> ('r \<Rightarrow> ('f, 'q) io) \<Rightarrow> ('f, 'q) io" where
  "bind_io m k w = (case m w of (w', Inl e) \<Rightarrow> (w', Inl e) | (w', Inr r) \<Rightarrow> k r w')"

definition awaited :: "stage \<Rightarrow> exn + 'r \<Rightarrow> ('f, 'r) io" where
  "awaited st r w = (w\<lparr>trace := trace w @ [Call st Awaited]\<rparr>, r)"

definition run_in_threadpool :: "stage \<Rightarrow> exn + 'r \<Rightarrow> ('f, 'r) io" where
  "run_in_threadpool st r w = (w\<lparr>trace := trace w @ [Call st Threadpool]\<rparr>, r)"

definition cache_get_chords :: "'f \<Rightarrow> ('f, pystr list option) io" where
  "cache_get_chords features w =
     (w\<lparr>trace := trace w @ [Call CacheGet Awaited]\<rparr>, Inr (get_chords (cache w) features))"

definition cache_set_chords :: "'f \<Rightarrow> pystr list \<Rightarrow> ('f, unit) io" where
  "cache_set_chords features chs w =
     (w\<lparr>cache := set_chords (cache w) features chs,
        trace := trace w @ [Call CacheSet Awaited]\<rparr>, Inr ())"

text \<open>
  \<open>MusicService.__call__\<close>, line by line. The second binding of \<open>features\<close> shadows
  the first, as the assignment in the source overwrites it.
\<close>

definition MusicService_call ::
  "('a, 'f) collaborators \<Rightarrow> ChordRequest \<Rightarrow> ('f, ChordResponse) io" where
  "MusicService_call cb req =
     bind_io (awaited Decode (load_audio cb (file_path req))) (\<lambda>audio_bytes.
     bind_io (run_in_threadpool Extract (extract_mfcc cb audio_bytes)) (\<lambda>features.
     bind_io (run_in_threadpool Denoise (denoise cb features)) (\<lambda>features.
     bind_io (cache_get_chords features) (\<lambda>cached.
     bind_io (case cached of
                None \<Rightarrow>
                  bind_io (run_in_threadpool Suggest (suggest cb features)) (\<lambda>chs.
                  bind_io (cache_set_chords features chs) (\<lambda>_.
                  return_io chs))
              | Some chs \<Rightarrow> return_io chs) (\<lambda>chs.
     bind_io (run_in_threadpool Generate (generate cb chs)) (\<lambda>acc.
     return_io \<lparr>chords = chs, accompaniment = acc\<rparr>))))))"


section \<open>Inbound websocket messages\<close>

text \<open>
  \<open>websocket.receive_json()\<close> either raises \<open>WebSocketDisconnect\<close>, or receives a text
  frame and hands it to \<open>json.loads\<close>, which returns the parsed value or raises
  \<open>JSONDecodeError\<close>. A parsed object is a Python \<open>dict\<close>, given here by its items.
\<close>

datatype json =
    JNull
  | JBool bool
  | JNumber int
  | JString pystr
  | JArray "json list"
  | JObject "(pystr \<times> json) list"

datatype frame = Json json | InvalidJson | Disconnect

text \<open>
  \<open>class WSMessage(BaseModel): data: str\<close>, built by \<open>WSMessage(**data)\<close>. The
  \<open>**\<close> call raises \<open>TypeError\<close> unless \<open>data\<close> is a mapping. pydantic then requires
  the field \<open>data\<close>, validates its value as a \<open>str\<close> and ignores fields the model does
  not declare (the default \<open>extra\<close> setting; the class sets no other). Which non-string
  scalars the \<open>str\<close> validator coerces depends on the pydantic release, so the validator
  is a parameter; \<open>strict_str\<close> is the one that accepts JSON strings only.
\<close>

definition WSMessage :: "(json \<Rightarrow> pystr option) \<Rightarrow> json \<Rightarrow> exn + pystr" where
  "WSMessage str_validator data =
     (case data of
        JObject items \<Rightarrow>
          (case map_of items (str ''data'') of
             None \<Rightarrow> Inl ValidationError
           | Some v \<Rightarrow>
               (case str_validator v of
                  None \<Rightarrow> Inl ValidationError
                | Some d \<Rightarrow> Inr d))
      | _ \<Rightarrow> Inl TypeError)"

definition strict_str :: "json \<Rightarrow> pystr option" where
  "strict_str v = (case v of JString d \<Rightarrow> Some d | _ \<Rightarrow> None)"

text \<open>
  \<open>msg.data.encode()\<close>: Python's default encoding is UTF-8, and a surrogate code point
  cannot be encoded (\<open>UnicodeEncodeError\<close>). Code points end at \<open>0x10FFFF\<close>.
\<close>

definition utf8 :: "nat \<Rightarrow> byte list option" where
  "utf8 c =
     (if c < 0x80 then Some [of_nat c]
      else if c < 0x800 then
        Some [of_nat (0xC0 + c div 0x40), of_nat (0x80 + c mod 0x40)]
      else if 0xD800 \<le> c \<and> c < 0xE000 then None
      else if c < 0x10000 then
        Some [of_nat (0xE0 + c div 0x1000), of_nat (0x80 + c div 0x40 mod 0x40),
              of_nat (0x80 + c mod 0x40)]
      else if c < 0x110000 then
        Some [of_nat (0xF0 + c div 0x40000), of_nat (0x80 + c div 0x1000 mod 0x40),
              of_nat (0x80 + c div 0x40 mod 0x40), of_nat (0x80 + c mod 0x40)]
      else None)"

fun str_encode :: "pystr \<Rightarrow> exn + byte list" where
  "str_encode [] = Inr []"
| "str_encode (c # cs) =
     (case utf8 c of
        None \<Rightarrow> Inl UnicodeEncodeError
      | Some bs \<Rightarrow>
          (case str_encode cs of
             Inl e \<Rightarrow> Inl e
           | Inr rest \<Rightarrow> Inr (bs @ rest)))"

section \<open>AdaptiveBuffer\<close>

text \<open>
  Modelled from the spec: \<open>AdaptiveBuffer\<close> (\<open>src/utils/buffer.py\<close>) is not among the
  sources. Section 4.1 of the specification: \<open>add\<close> appends bytes and fails with
  \<open>CapacityExceeded\<close> when the unconsumed backlog would exceed a configured ceiling;
  \<open>features()\<close> emits windows cut from the front of the backlog, of a size the adaptive
  policy chooses, each byte once. The policy and the ceiling are left open by the
  specification: the ceiling is a field, the size of the next window comes with the event
  that emits it. \<open>closed\<close> is set by closing the buffer, which nothing in \<open>main.py\<close>
  does.
\<close>

record AdaptiveBuffer =
  backlog :: "byte list"
  ceiling :: nat
  closed :: bool

definition new_buffer :: "nat \<Rightarrow> AdaptiveBuffer" where
  "new_buffer cap = \<lparr>backlog = [], ceiling = cap, closed = False\<rparr>"

definition add :: "AdaptiveBuffer \<Rightarrow> byte list \<Rightarrow> exn + AdaptiveBuffer" where
  "add b chunk =
     (if ceiling b < length (backlog b) + length chunk then Inl CapacityExceeded
      else Inr (b\<lparr>backlog := backlog b @ chunk\<rparr>))"

definition next_window :: "nat \<Rightarrow> AdaptiveBuffer \<Rightarrow> (byte list \<times> AdaptiveBuffer) option" where
  "next_window n b =
     (if 0 < n \<and> n \<le> length (backlog b)
      then Some (take n (backlog b), b\<lparr>backlog := drop n (backlog b)\<rparr>)
      else None)"

section \<open>The websocket session\<close>

text \<open>
  An \<open>asyncio\<close> task is running, was cancelled, or ended with an exception that nobody
  awaits. The endpoint coroutine is in its receive loop, has returned, or has raised.
\<close>

datatype task = Running | Cancelled | Failed exn

datatype endpoint_state = Receiving | Returned | Raised exn

text \<open>
  Modelled from the spec: \<open>ConnectionManager\<close> (\<open>src/utils/connection.py\<close>) is not
  among the sources. Section 4.3 of the specification: \<open>connect\<close> registers the socket and
  \<open>disconnect\<close> removes it. \<open>registered\<close> is that membership; what \<open>send_json\<close> does
  with a message is the transport's business and is given with each event.
\<close>

record session =
  registered :: bool
  buffer :: AdaptiveBuffer
  ping_task :: task
  process_task :: task
  endpoint :: endpoint_state
  log :: "effect list"

text \<open>\<open>Task.cancel()\<close> stops a task that has not finished and leaves a finished one alone.\<close>

definition cancel :: "task \<Rightarrow> task" where
  "cancel t = (case t of Running \<Rightarrow> Cancelled | _ \<Rightarrow> t)"

text \<open>
  An exception \<open>e\<close> leaves the \<open>try\<close> block of \<open>websocket_endpoint\<close>:
  \<open>except WebSocketDisconnect\<close> swallows that one exception, any other propagates, and
  the \<open>finally\<close> block runs in both cases.
\<close>

definition finally_block :: "exn \<Rightarrow> session \<Rightarrow> session" where
  "finally_block e s =
     s\<lparr>ping_task := cancel (ping_task s),
       process_task := cancel (process_task s),
       registered := False,
       endpoint := (if e = WebSocketDisconnect then Returned else Raised e),
       log := log s @ [CancelPing, CancelProcess, ManagerDisconnect]\<rparr>"

text \<open>
  The outcome of a send on the transport is the environment's: \<open>None\<close> when the call
  returns, \<open>Some e\<close> when it raises \<open>e\<close>.

  \<open>websocket_endpoint\<close> up to the loop: \<open>manager.connect\<close> has returned, the buffer
  is new, both tasks are created, and \<open>{"ready": True}\<close> is sent inside the \<open>try\<close>.
\<close>

definition websocket_accept :: "nat \<Rightarrow> exn option \<Rightarrow> session" where
  "websocket_accept cap ready_result =
     (let s = \<lparr>registered = True, buffer = new_buffer cap,
                ping_task = Running, process_task = Running,
                endpoint = Receiving,
                log = [ManagerConnect, ManagerSend Ready]\<rparr>
      in case ready_result of None \<Rightarrow> s | Some e \<Rightarrow> finally_block e s)"

text \<open>One iteration of the \<open>while True\<close> loop of \<open>websocket_endpoint\<close>.\<close>

definition receive_loop ::
  "(json \<Rightarrow> pystr option) \<Rightarrow> frame \<Rightarrow> exn option \<Rightarrow> session \<Rightarrow> session" where
  "receive_loop str_validator fr ack_result s =
     (case fr of
        Disconnect \<Rightarrow> finally_block WebSocketDisconnect s
      | InvalidJson \<Rightarrow> finally_block JSONDecodeError s
      | Json data \<Rightarrow>
          (case WSMessage str_validator data of
             Inl e \<Rightarrow> finally_block e s
           | Inr msg_data \<Rightarrow>
               (case str_encode msg_data of
                  Inl e \<Rightarrow> finally_block e s
                | Inr chunk \<Rightarrow>
                    (case add (buffer s) chunk of
                       Inl e \<Rightarrow> finally_block e (s\<lparr>log := log s @ [BufferAdd chunk]\<rparr>)
                     | Inr b \<Rightarrow>
                         (let s' = s\<lparr>buffer := b,
                                     log := log s @ [BufferAdd chunk, ManagerSend Ack]\<rparr>
                          in case ack_result of
                               None \<Rightarrow> s'
                             | Some e \<Rightarrow> finally_block e s')))))"

text \<open>One iteration of \<open>_heartbeat\<close>: the ten seconds of \<open>asyncio.sleep\<close> have passed.\<close>

definition heartbeat :: "exn option \<Rightarrow> session \<Rightarrow> session" where
  "heartbeat ping_result s =
     s\<lparr>log := log s @ [WsSend Ping],
       ping_task := (case ping_result of None \<Rightarrow> Running | Some e \<Rightarrow> Failed e)\<rparr>"

text \<open>
  One iteration of the \<open>async for\<close> of \<open>_process_audio\<close>, on the window the buffer
  yields: \<open>suggester.suggest(features)\<close> is a plain call, then the chords go out through
  the manager.
\<close>

definition process_audio ::
  "('a, byte list) collaborators \<Rightarrow> byte list \<Rightarrow> exn option \<Rightarrow> session \<Rightarrow> session" where
  "process_audio cb features send_result s =
     (case suggest cb features of
        Inl e \<Rightarrow> s\<lparr>log := log s @ [Call Suggest Inline], process_task := Failed e\<rparr>
      | Inr chs \<Rightarrow>
          s\<lparr>log := log s @ [Call Suggest Inline, ManagerSend (Chords chs)],
            process_task := (case send_result of None \<Rightarrow> Running | Some e \<Rightarrow> Failed e)\<rparr>)"

text \<open>
  What the event loop resumes next: the receive loop on an inbound frame, the heartbeat
  on its timer, or the processing task on a window of \<open>n\<close> bytes. A coroutine that has
  ended is not resumed, and the processing task stays suspended while the backlog holds
  no window of that size. Each iteration is one step: between two \<open>await\<close>s nothing else
  runs, and the three streams of a session have no order among themselves.
\<close>

datatype event =
    Recv frame "exn option"
  | Tick "exn option"
  | Window nat "exn option"

definition step ::
  "('a, byte list) collaborators \<Rightarrow> (json \<Rightarrow> pystr option) \<Rightarrow> event \<Rightarrow> session \<Rightarrow> session" where
  "step cb str_validator ev s =
     (case ev of
        Recv fr ack_result \<Rightarrow>
          (if endpoint s = Receiving then receive_loop str_validator fr ack_result s else s)
      | Tick ping_result \<Rightarrow>
          (if ping_task s = Running then heartbeat ping_result s else s)
      | Window n send_result \<Rightarrow>
          (if process_task s = Running then
             (case next_window n (buffer s) of
                None \<Rightarrow> s
              | Some (features, b) \<Rightarrow> process_audio cb features send_result (s\<lparr>buffer := b\<rparr>))
           else s))"

fun run ::
  "('a, byte list) collaborators \<Rightarrow> (json \<Rightarrow> pystr option) \<Rightarrow> event list \<Rightarrow> session \<Rightarrow> session" where
  "run cb str_validator [] s = s"
| "run cb str_validator (ev # evs) s = run cb str_validator evs (step cb str_validator ev s)"

text \<open>The messages a session has handed to a send, in order.\<close>

fun outbound :: "effect list \<Rightarrow> out_msg list" where
  "outbound [] = []"
| "outbound (ManagerSend m # es) = m # outbound es"
| "outbound (WsSend m # es) = m # outbound es"
| "outbound (_ # es) = outbound es"

section \<open>The orders of calls the specification names\<close>

text \<open>
  Section 4.4 of the specification lists the steps of one unit of work: decode, extract
  features, denoise, cache lookup, then on a miss suggestion and cache store, then
  accompaniment. The two lists below are that order on a miss and on a hit, each call with
  the dispatch the source gives it.
\<close>

definition miss_order :: "effect list" where
  "miss_order =
     [Call Decode Awaited, Call Extract Threadpool, Call Denoise Threadpool,
      Call CacheGet Awaited, Call Suggest Threadpool, Call CacheSet Awaited,
      Call Generate Threadpool]"

definition hit_order :: "effect list" where
  "hit_order =
     [Call Decode Awaited, Call Extract Threadpool, Call Denoise Threadpool,
      Call CacheGet Awaited, Call Generate Threadpool]"

text \<open>
  The compute path of the specification: what the collaborators alone produce for a
  request, with no cache in between.
\<close>

definition compute_path :: "('a, 'f) collaborators \<Rightarrow> ChordRequest \<Rightarrow> exn + ChordResponse" where
  "compute_path cb req =
     (case load_audio cb (file_path req) of Inl e \<Rightarrow> Inl e | Inr audio_bytes \<Rightarrow>
      case extract_mfcc cb audio_bytes of Inl e \<Rightarrow> Inl e | Inr raw \<Rightarrow>
      case denoise cb raw of Inl e \<Rightarrow> Inl e | Inr features \<Rightarrow>
      case suggest cb features of Inl e \<Rightarrow> Inl e | Inr chs \<Rightarrow>
      case generate cb chs of Inl e \<Rightarrow> Inl e | Inr acc \<Rightarrow>
        Inr \<lparr>chords = chs, accompaniment = acc\<rparr>)"

section \<open>Concrete collaborators\<close>

text \<open>
  A small deterministic instance on which the theorems are exercised: two audio files
  exist, \<open>song.wav\<close> and the all-zero \<open>silence.wav\<close>; feature extraction and denoising
  pass their input on, the suggester fails on features that contain a zero byte, and the
  accompaniment is the chords in reverse. In \<open>demo_no_features\<close>, \<open>demo_no_denoise\<close>
  and \<open>demo_no_accompaniment\<close> the named collaborator always fails. The cache starts
  empty at time \<open>0\<close>, takes writes, and keeps an entry for sixty ticks.
\<close>

definition demo :: "(byte list, byte list) collaborators" where
  "demo =
     \<lparr>load_audio = (\<lambda>p. if p = str ''song.wav'' then Inr [1, 2, 3]
                          else if p = str ''silence.wav'' then Inr [0, 0]
                          else Inl OSError),
      extract_mfcc = (\<lambda>a. Inr a),
      denoise = (\<lambda>f. Inr f),
      suggest = (\<lambda>f. if 0 \<in> set f then Inl RuntimeError else Inr [str ''C'', str ''G'']),
      generate = (\<lambda>chs. Inr (rev chs))\<rparr>"

definition demo_no_accompaniment :: "(byte list, byte list) collaborators" where
  "demo_no_accompaniment = demo\<lparr>generate := (\<lambda>chs. Inl RuntimeError)\<rparr>"

definition demo_no_features :: "(byte list, byte list) collaborators" where
  "demo_no_features = demo\<lparr>extract_mfcc := (\<lambda>a. Inl RuntimeError)\<rparr>"

definition demo_no_denoise :: "(byte list, byte list) collaborators" where
  "demo_no_denoise = demo\<lparr>denoise := (\<lambda>f. Inl RuntimeError)\<rparr>"

definition demo_cache :: "bool \<Rightarrow> byte list RedisCache" where
  "demo_cache up =
     \<lparr>backend_up = up, writable = True, fingerprint = (\<lambda>f. sum_list (map unat f)),
      clock = 0, ttl = 60, entries = Map.empty\<rparr>"

definition demo_world :: "bool \<Rightarrow> byte list world" where
  "demo_world up = \<lparr>cache = demo_cache up, trace = []\<rparr>"

definition song :: ChordRequest where
  "song = \<lparr>file_path = str ''song.wav''\<rparr>"

definition silence :: ChordRequest where
  "silence = \<lparr>file_path = str ''silence.wav''\<rparr>"

definition missing :: ChordRequest where
  "missing = \<lparr>file_path = str ''missing.wav''\<rparr>"

text \<open>The cache and the calls recorded after the first request for \<open>song.wav\<close>.\<close>

definition after_song :: "byte list world" where
  "after_song =
     \<lparr>cache = set_chords (demo_cache True) [1, 2, 3] [str ''C'', str ''G''],
      trace = [Call Decode Awaited, Call Extract Threadpool, Call Denoise Threadpool,
               Call CacheGet Awaited, Call Suggest Threadpool, Call CacheSet Awaited,
               Call Generate Threadpool]\<rparr>"


definition envelope :: "pystr \<Rightarrow> json" where
  "envelope d = JObject [(str ''data'', JString d)]"

definition fresh :: session where
  "fresh = websocket_accept 1024 None"

section \<open>What the specification expects of a session\<close>

text \<open>The calls on pipeline stages among the calls a session or a request has made.\<close>

fun called :: "effect list \<Rightarrow> (stage \<times> dispatch) list" where
  "called [] = []"
| "called (Call st d # es) = (st, d) # called es"
| "called (_ # es) = called es"




text \<open>
  Section 4.5 of the specification, \<open>Draining \<rightarrow> Closed\<close>, as far as \<open>main.py\<close>
  carries it out: neither task is running, the socket is no longer registered, and the
  last calls made are the two cancellations and \<open>manager.disconnect\<close>.
\<close>

definition torn_down :: "session \<Rightarrow> bool" where
  "torn_down s \<longleftrightarrow>
     ping_task s \<noteq> Running \<and> process_task s \<noteq> Running \<and> \<not> registered s \<and>
     suffix [CancelPing, CancelProcess, ManagerDisconnect] (log s)"


section \<open>Properties of the request path\<close>

lemmas io_defs = bind_io_def return_io_def awaited_def run_in_threadpool_def
  cache_get_chords_def cache_set_chords_def

lemmas demo_defs = demo_def demo_cache_def demo_world_def song_def str_def
  get_chords_def set_chords_def

lemma call_order:
  assumes "MusicService_call cb req w = (w', r)"
  shows "\<exists>tr. trace w' = trace w @ tr \<and> (prefix tr miss_order \<or> tr = hit_order)"
  using assms
  by (auto simp: MusicService_call_def io_defs hit_order_def miss_order_def
      split: sum.splits option.splits prod.splits)

lemma call_success:
  assumes "MusicService_call cb req w = (w', Inr resp)"
  shows "\<exists>audio raw f.
      load_audio cb (file_path req) = Inr audio \<and> extract_mfcc cb audio = Inr raw \<and>
      denoise cb raw = Inr f \<and>
      (case get_chords (cache w) f of
         Some chs \<Rightarrow> trace w' = trace w @ hit_order \<and> cache w' = cache w \<and> chords resp = chs
       | None \<Rightarrow> trace w' = trace w @ miss_order \<and> suggest cb f = Inr (chords resp) \<and>
           cache w' = set_chords (cache w) f (chords resp)) \<and>
      generate cb (chords resp) = Inr (accompaniment resp)"
  using assms
  by (auto simp: MusicService_call_def io_defs hit_order_def miss_order_def
      split: sum.splits option.splits prod.splits)

lemma call_hit:
  assumes "load_audio cb (file_path req) = Inr audio" "extract_mfcc cb audio = Inr raw"
    "denoise cb raw = Inr f" "get_chords (cache w) f = Some chs" "generate cb chs = Inr acc"
  shows "MusicService_call cb req w =
     (w\<lparr>trace := trace w @ hit_order\<rparr>, Inr \<lparr>chords = chs, accompaniment = acc\<rparr>)"
  using assms by (simp add: MusicService_call_def io_defs hit_order_def)

lemma call_miss:
  assumes "load_audio cb (file_path req) = Inr audio" "extract_mfcc cb audio = Inr raw"
    "denoise cb raw = Inr f" "get_chords (cache w) f = None" "suggest cb f = Inr chs"
    "generate cb chs = Inr acc"
  shows "MusicService_call cb req w =
     (w\<lparr>cache := set_chords (cache w) f chs, trace := trace w @ miss_order\<rparr>,
      Inr \<lparr>chords = chs, accompaniment = acc\<rparr>)"
  using assms by (simp add: MusicService_call_def io_defs miss_order_def)



lemma after_song_lookup: "get_chords (cache after_song) [1, 2, 3] = Some [str ''C'', str ''G'']"
  by (simp add: after_song_def demo_defs)

text \<open>
  C1. Whatever the outcome of \<open>MusicService.__call__\<close>, the calls it has made are an
  initial part of decode, feature extraction, denoise, cache lookup, suggestion, cache
  store, accompaniment, or are the five calls of a hit. When decode, feature extraction
  and denoising succeed and the lookup hits, and the accompaniment generator succeeds on
  the cached chords, the call returns those chords with that accompaniment after exactly
  the five calls of a hit, the suggestion and the store skipped and the cache untouched.
  When the lookup misses and the suggester and the generator succeed, the call returns the
  suggested chords with their accompaniment after exactly the seven calls of a miss, the
  chords stored under the features. Conversely a returned response arises in one of these
  two ways.
\<close>

theorem pipeline_order:
  "(\<exists>tr. trace (fst (MusicService_call cb req w)) = trace w @ tr \<and>
          (prefix tr miss_order \<or> tr = hit_order)) \<and>
   (load_audio cb (file_path req) = Inr audio \<and> extract_mfcc cb audio = Inr raw \<and>
    denoise cb raw = Inr f \<and> get_chords (cache w) f = Some chs \<and>
    generate cb chs = Inr acc \<longrightarrow>
      MusicService_call cb req w =
        (w\<lparr>trace := trace w @ hit_order\<rparr>, Inr \<lparr>chords = chs, accompaniment = acc\<rparr>)) \<and>
   (load_audio cb (file_path req) = Inr audio \<and> extract_mfcc cb audio = Inr raw \<and>
    denoise cb raw = Inr f \<and> get_chords (cache w) f = None \<and>
    suggest cb f = Inr chs \<and> generate cb chs = Inr acc \<longrightarrow>
      MusicService_call cb req w =
        (w\<lparr>cache := set_chords (cache w) f chs, trace := trace w @ miss_order\<rparr>,
         Inr \<lparr>chords = chs, accompaniment = acc\<rparr>)) \<and>
   (\<forall>w' resp. MusicService_call cb req w = (w', Inr resp) \<longrightarrow>
      (\<exists>audio raw f.
        load_audio cb (file_path req) = Inr audio \<and> extract_mfcc cb audio = Inr raw \<and>
        denoise cb raw = Inr f \<and>
        (case get_chords (cache w) f of
           Some chs \<Rightarrow> trace w' = trace w @ hit_order \<and> cache w' = cache w \<and> chords resp = chs
         | None \<Rightarrow> trace w' = trace w @ miss_order \<and> suggest cb f = Inr (chords resp) \<and>
             cache w' = set_chords (cache w) f (chords resp)) \<and>
        generate cb (chords resp) = Inr (accompaniment resp)))"
proof -
  obtain w' r where c: "MusicService_call cb req w = (w', r)"
    by (cases "MusicService_call cb req w")
  from call_order[OF c] c
  have order: "\<exists>tr. trace (fst (MusicService_call cb req w)) = trace w @ tr \<and>
      (prefix tr miss_order \<or> tr = hit_order)"
    by simp
  show ?thesis
    using order call_hit[of cb req audio raw f w chs acc]
      call_miss[of cb req audio raw f w chs acc] call_success[of cb req w]
    by blast
qed

theorem pipeline_order_witness:
  "(load_audio demo (file_path song) = Inr [1, 2, 3] \<and> extract_mfcc demo [1, 2, 3] = Inr [1, 2, 3] \<and>
    denoise demo [1, 2, 3] = Inr [1, 2, 3] \<and> get_chords (cache (demo_world True)) [1, 2, 3] = None \<and>
    suggest demo [1, 2, 3] = Inr [str ''C'', str ''G''] \<and>
    generate demo [str ''C'', str ''G''] = Inr [str ''G'', str ''C'']) \<and>
   MusicService_call demo song (demo_world True) =
     ((demo_world True)\<lparr>cache := set_chords (cache (demo_world True)) [1, 2, 3] [str ''C'', str ''G''],
        trace := trace (demo_world True) @ miss_order\<rparr>,
      Inr \<lparr>chords = [str ''C'', str ''G''], accompaniment = [str ''G'', str ''C'']\<rparr>) \<and>
   (load_audio demo (file_path song) = Inr [1, 2, 3] \<and> extract_mfcc demo [1, 2, 3] = Inr [1, 2, 3] \<and>
    denoise demo [1, 2, 3] = Inr [1, 2, 3] \<and>
    get_chords (cache after_song) [1, 2, 3] = Some [str ''C'', str ''G''] \<and>
    generate demo [str ''C'', str ''G''] = Inr [str ''G'', str ''C'']) \<and>
   MusicService_call demo song after_song =
     (after_song\<lparr>trace := trace after_song @ hit_order\<rparr>,
      Inr \<lparr>chords = [str ''C'', str ''G''], accompaniment = [str ''G'', str ''C'']\<rparr>)"
proof -
  have on_miss:
    "load_audio demo (file_path song) = Inr [1, 2, 3] \<and> extract_mfcc demo [1, 2, 3] = Inr [1, 2, 3] \<and>
     denoise demo [1, 2, 3] = Inr [1, 2, 3] \<and> get_chords (cache (demo_world True)) [1, 2, 3] = None \<and>
     suggest demo [1, 2, 3] = Inr [str ''C'', str ''G''] \<and>
     generate demo [str ''C'', str ''G''] = Inr [str ''G'', str ''C'']"
    by (simp add: demo_defs)
  have on_hit:
    "load_audio demo (file_path song) = Inr [1, 2, 3] \<and> extract_mfcc demo [1, 2, 3] = Inr [1, 2, 3] \<and>
     denoise demo [1, 2, 3] = Inr [1, 2, 3] \<and>
     get_chords (cache after_song) [1, 2, 3] = Some [str ''C'', str ''G''] \<and>
     generate demo [str ''C'', str ''G''] = Inr [str ''G'', str ''C'']"
    by (simp add: after_song_lookup) (simp add: demo_defs)
  note miss = pipeline_order[where cb = demo and req = song and w = "demo_world True"
      and audio = "[1, 2, 3]" and raw = "[1, 2, 3]" and f = "[1, 2, 3]"
      and chs = "[str ''C'', str ''G'']" and acc = "[str ''G'', str ''C'']",
      THEN conjunct2, THEN conjunct2, THEN conjunct1, THEN mp, OF on_miss]
  note hit = pipeline_order[where cb = demo and req = song and w = after_song
      and audio = "[1, 2, 3]" and raw = "[1, 2, 3]" and f = "[1, 2, 3]"
      and chs = "[str ''C'', str ''G'']" and acc = "[str ''G'', str ''C'']",
      THEN conjunct2, THEN conjunct1, THEN mp, OF on_hit]
  from on_miss miss on_hit hit show ?thesis by blast
qed

subsection \<open>Cache outage\<close>

lemma down_get: "\<not> backend_up c \<Longrightarrow> get_chords c f = None"
  by (simp add: get_chords_def)

lemma down_set: "\<not> backend_up c \<Longrightarrow> set_chords c f chs = c"
  by (simp add: set_chords_def)

lemma call_down:
  assumes "\<not> backend_up (cache w)"
  shows "snd (MusicService_call cb req w) = compute_path cb req"
    and "cache (fst (MusicService_call cb req w)) = cache w"
    and "compute_path cb req = Inr resp \<Longrightarrow>
           trace (fst (MusicService_call cb req w)) = trace w @ miss_order"
  using assms
  by (auto simp: MusicService_call_def io_defs compute_path_def miss_order_def
      get_chords_def set_chords_def split: sum.splits)

lemma demo_down_call:
  "MusicService_call demo song (demo_world False) =
     (\<lparr>cache = demo_cache False, trace = miss_order\<rparr>,
      Inr \<lparr>chords = [str ''C'', str ''G''], accompaniment = [str ''G'', str ''C'']\<rparr>)"
  by (simp add: MusicService_call_def io_defs demo_defs miss_order_def)

text \<open>
  C6. When the cache backend is out, every lookup is a miss and every store leaves the
  cache as it was, and \<open>MusicService.__call__\<close> ends exactly as the compute path does: no
  error comes from the cache, the cache is unchanged, and a response, when the collaborators
  give one, is produced by the seven calls of the miss order, suggestion included.
\<close>

theorem cache_outage:
  assumes "\<not> backend_up (cache w)"
  shows "snd (MusicService_call cb req w) = compute_path cb req \<and>
         cache (fst (MusicService_call cb req w)) = cache w \<and>
         (\<forall>resp. compute_path cb req = Inr resp \<longrightarrow>
            trace (fst (MusicService_call cb req w)) = trace w @ miss_order) \<and>
         (\<forall>f chs. get_chords (cache w) f = None \<and> set_chords (cache w) f chs = cache w)"
  using call_down[OF assms] down_get[OF assms] down_set[OF assms] by blast

theorem cache_outage_witness:
  "\<not> backend_up (cache (demo_world False)) \<and>
   snd (MusicService_call demo song (demo_world False)) =
     Inr \<lparr>chords = [str ''C'', str ''G''], accompaniment = [str ''G'', str ''C'']\<rparr> \<and>
   compute_path demo song =
     Inr \<lparr>chords = [str ''C'', str ''G''], accompaniment = [str ''G'', str ''C'']\<rparr> \<and>
   cache (fst (MusicService_call demo song (demo_world False))) = demo_cache False \<and>
   trace (fst (MusicService_call demo song (demo_world False))) = miss_order"
  using cache_outage[of "demo_world False" demo song]
  by (simp add: demo_down_call) (simp add: demo_defs)

subsection \<open>The same request twice\<close>









section \<open>Properties of the websocket session\<close>

lemmas session_defs = fresh_def websocket_accept_def new_buffer_def step_def receive_loop_def
  heartbeat_def process_audio_def next_window_def add_def WSMessage_def strict_str_def
  envelope_def utf8_def cancel_def finally_block_def

lemma finally_block_simps [simp]:
  "ping_task (finally_block e s) = cancel (ping_task s)"
  "process_task (finally_block e s) = cancel (process_task s)"
  "registered (finally_block e s) = False"
  "buffer (finally_block e s) = buffer s"
  "endpoint (finally_block e s) = (if e = WebSocketDisconnect then Returned else Raised e)"
  "log (finally_block e s) = log s @ [CancelPing, CancelProcess, ManagerDisconnect]"
  by (simp_all add: finally_block_def)

lemma cancel_not_Running [simp]: "cancel t \<noteq> Running"
  by (cases t) (simp_all add: cancel_def)

lemma outbound_append [simp]: "outbound (xs @ ys) = outbound xs @ outbound ys"
  by (induction xs rule: outbound.induct) simp_all

lemma called_append [simp]: "called (xs @ ys) = called xs @ called ys"
  by (induction xs rule: called.induct) simp_all

lemma WSMessage_error: "WSMessage sv data = Inl e \<Longrightarrow> e = TypeError \<or> e = ValidationError"
  by (auto simp: WSMessage_def split: json.splits option.splits)

lemma fresh_eq:
  "fresh = \<lparr>registered = True, buffer = \<lparr>backlog = [], ceiling = 1024, closed = False\<rparr>,
            ping_task = Running, process_task = Running, endpoint = Receiving,
            log = [ManagerConnect, ManagerSend Ready]\<rparr>"
  by (simp add: session_defs)

lemma one_chunk:
  "step demo strict_str (Recv (Json (envelope (str ''AAAA''))) None) fresh =
     \<lparr>registered = True, buffer = \<lparr>backlog = [65, 65, 65, 65], ceiling = 1024, closed = False\<rparr>,
      ping_task = Running, process_task = Running, endpoint = Receiving,
      log = [ManagerConnect, ManagerSend Ready, BufferAdd [65, 65, 65, 65], ManagerSend Ack]\<rparr>"
  by (simp add: session_defs demo_defs)

lemma one_window:
  "run demo strict_str [Recv (Json (envelope (str ''AAAA''))) None, Window 4 None] fresh =
     \<lparr>registered = True, buffer = \<lparr>backlog = [], ceiling = 1024, closed = False\<rparr>,
      ping_task = Running, process_task = Running, endpoint = Receiving,
      log = [ManagerConnect, ManagerSend Ready, BufferAdd [65, 65, 65, 65], ManagerSend Ack,
             Call Suggest Inline, ManagerSend (Chords [str ''C'', str ''G''])]\<rparr>"
  by (simp add: session_defs demo_defs)

lemma one_bad_chunk:
  "step demo strict_str (Recv (Json (envelope [0])) None) fresh =
     \<lparr>registered = True, buffer = \<lparr>backlog = [0], ceiling = 1024, closed = False\<rparr>,
      ping_task = Running, process_task = Running, endpoint = Receiving,
      log = [ManagerConnect, ManagerSend Ready, BufferAdd [0], ManagerSend Ack]\<rparr>"
  by (simp add: session_defs demo_defs)



subsection \<open>Malformed inbound messages\<close>

text \<open>
  C2, as amended. In a session whose endpoint is in its receive loop, an inbound message
  that is not valid JSON or whose envelope fails \<open>WSMessage\<close> validation adds no bytes
  to the buffer and is not acknowledged; the exception escapes the receive loop, the
  \<open>finally\<close> block cancels both tasks and disconnects the socket from the manager, and
  the endpoint ends by raising.
\<close>

theorem malformed_message:
  assumes "endpoint s = Receiving"
    and "fr = InvalidJson \<or> (\<exists>data e. fr = Json data \<and> WSMessage sv data = Inl e)"
    and "s' = step cb sv (Recv fr r) s"
  shows "buffer s' = buffer s \<and> outbound (log s') = outbound (log s) \<and>
         log s' = log s @ [CancelPing, CancelProcess, ManagerDisconnect] \<and>
         (\<exists>e. endpoint s' = Raised e) \<and>
         ping_task s' \<noteq> Running \<and> process_task s' \<noteq> Running \<and> \<not> registered s'"
  using assms
  by (auto simp: step_def receive_loop_def dest: WSMessage_error)

theorem malformed_message_witness:
  "endpoint fresh = Receiving \<and> WSMessage strict_str (JObject []) = Inl ValidationError \<and>
   buffer (step demo strict_str (Recv (Json (JObject [])) None) fresh) = buffer fresh \<and>
   log (step demo strict_str (Recv (Json (JObject [])) None) fresh) =
     [ManagerConnect, ManagerSend Ready, CancelPing, CancelProcess, ManagerDisconnect] \<and>
   ping_task (step demo strict_str (Recv (Json (JObject [])) None) fresh) \<noteq> Running"
  using malformed_message[of fresh "Json (JObject [])" strict_str
      "step demo strict_str (Recv (Json (JObject [])) None) fresh" demo None]
  by (simp add: fresh_eq WSMessage_def)

text \<open>
  A fresh session that receives \<open>{"payload": "AAAA"}\<close>, an envelope without the field
  \<open>data\<close>, or a text frame that is not JSON, does not stay alive: both tasks are
  cancelled, the socket is disconnected and the endpoint raises.
\<close>

theorem malformed_message_ends_session:
  "step demo strict_str
     (Recv (Json (JObject [(str ''payload'', JString (str ''AAAA''))])) None) fresh =
     \<lparr>registered = False, buffer = \<lparr>backlog = [], ceiling = 1024, closed = False\<rparr>,
      ping_task = Cancelled, process_task = Cancelled, endpoint = Raised ValidationError,
      log = [ManagerConnect, ManagerSend Ready, CancelPing, CancelProcess, ManagerDisconnect]\<rparr> \<and>
   step demo strict_str (Recv InvalidJson None) fresh =
     \<lparr>registered = False, buffer = \<lparr>backlog = [], ceiling = 1024, closed = False\<rparr>,
      ping_task = Cancelled, process_task = Cancelled, endpoint = Raised JSONDecodeError,
      log = [ManagerConnect, ManagerSend Ready, CancelPing, CancelProcess, ManagerDisconnect]\<rparr>"
  by (simp add: session_defs str_def)

subsection \<open>Processing a window\<close>

text \<open>
  C3, as amended. For every window the buffer yields to a running processing task, the
  task makes one call on a pipeline stage, the suggester, as a plain call, and when it
  returns chords sends them through the manager; the window is taken from the buffer.
  Decode, feature extraction, denoising, cache lookup, cache store and accompaniment are
  not called.
\<close>

theorem window_processing:
  assumes "process_task s = Running" and "next_window n (buffer s) = Some (features, b)"
    and "s' = step cb sv (Window n r) s"
  shows "log s' = log s @ Call Suggest Inline #
           (case suggest cb features of Inl e \<Rightarrow> [] | Inr chs \<Rightarrow> [ManagerSend (Chords chs)]) \<and>
         called (log s') = called (log s) @ [(Suggest, Inline)] \<and>
         buffer s' = b"
  using assms by (auto simp: step_def process_audio_def split: sum.splits)

theorem window_processing_witness:
  "process_task (step demo strict_str (Recv (Json (envelope (str ''AAAA''))) None) fresh) = Running \<and>
   next_window 4 (buffer (step demo strict_str (Recv (Json (envelope (str ''AAAA''))) None) fresh)) =
     Some ([65, 65, 65, 65], \<lparr>backlog = [], ceiling = 1024, closed = False\<rparr>) \<and>
   log (step demo strict_str (Window 4 None)
          (step demo strict_str (Recv (Json (envelope (str ''AAAA''))) None) fresh)) =
     [ManagerConnect, ManagerSend Ready, BufferAdd [65, 65, 65, 65], ManagerSend Ack,
      Call Suggest Inline, ManagerSend (Chords [str ''C'', str ''G''])]"
  using window_processing[of
      "step demo strict_str (Recv (Json (envelope (str ''AAAA''))) None) fresh"
      4 "[65, 65, 65, 65]" "\<lparr>backlog = [], ceiling = 1024, closed = False\<rparr>"
      "step demo strict_str (Window 4 None)
          (step demo strict_str (Recv (Json (envelope (str ''AAAA''))) None) fresh)"
      demo strict_str None]
  by (simp add: one_chunk next_window_def) (simp add: demo_defs)

text \<open>
  A session that buffers \<open>AAAA\<close> and processes it as one window: the only pipeline stage
  called is the suggester, with neither denoising nor a cache lookup.
\<close>

theorem window_skips_pipeline:
  "log (run demo strict_str [Recv (Json (envelope (str ''AAAA''))) None, Window 4 None] fresh) =
     [ManagerConnect, ManagerSend Ready, BufferAdd [65, 65, 65, 65], ManagerSend Ack,
      Call Suggest Inline, ManagerSend (Chords [str ''C'', str ''G''])] \<and>
   called (log (run demo strict_str
      [Recv (Json (envelope (str ''AAAA''))) None, Window 4 None] fresh)) =
     [(Suggest, Inline)]"
  unfolding one_window by simp

text \<open>
  C7. \<open>_process_audio\<close> calls \<open>suggester.suggest(features)\<close> as a plain call on the
  event loop, for every window and whatever the suggester answers, whereas
  \<open>MusicService.__call__\<close> hands the same call to \<open>run_in_threadpool\<close>.
\<close>

theorem process_audio_inline:
  "called (log (process_audio cb features send_result s)) = called (log s) @ [(Suggest, Inline)]"
  by (simp add: process_audio_def split: sum.splits)

subsection \<open>Teardown\<close>



lemma torn_down_finally [simp]: "torn_down (finally_block e s)"
  by (simp add: torn_down_def suffix_def)












subsection \<open>A failing collaborator\<close>

lemma fails_decode:
  "load_audio cb (file_path req) = Inl e \<Longrightarrow>
     MusicService_call cb req w = (w\<lparr>trace := trace w @ [Call Decode Awaited]\<rparr>, Inl e)"
  by (simp add: MusicService_call_def io_defs)

lemma fails_extract:
  "load_audio cb (file_path req) = Inr audio \<and> extract_mfcc cb audio = Inl e \<Longrightarrow>
     MusicService_call cb req w =
       (w\<lparr>trace := trace w @ [Call Decode Awaited, Call Extract Threadpool]\<rparr>, Inl e)"
  by (simp add: MusicService_call_def io_defs)

lemma fails_denoise:
  "load_audio cb (file_path req) = Inr audio \<and> extract_mfcc cb audio = Inr raw \<and>
   denoise cb raw = Inl e \<Longrightarrow>
     MusicService_call cb req w =
       (w\<lparr>trace := trace w @
            [Call Decode Awaited, Call Extract Threadpool, Call Denoise Threadpool]\<rparr>, Inl e)"
  by (simp add: MusicService_call_def io_defs)

lemma fails_suggest:
  "load_audio cb (file_path req) = Inr audio \<and> extract_mfcc cb audio = Inr raw \<and>
   denoise cb raw = Inr f \<and> get_chords (cache w) f = None \<and> suggest cb f = Inl e \<Longrightarrow>
     MusicService_call cb req w =
       (w\<lparr>trace := trace w @
            [Call Decode Awaited, Call Extract Threadpool, Call Denoise Threadpool,
             Call CacheGet Awaited, Call Suggest Threadpool]\<rparr>, Inl e)"
  by (simp add: MusicService_call_def io_defs)

lemma fails_generate_hit:
  "load_audio cb (file_path req) = Inr audio \<and> extract_mfcc cb audio = Inr raw \<and>
   denoise cb raw = Inr f \<and> get_chords (cache w) f = Some chs \<and> generate cb chs = Inl e \<Longrightarrow>
     MusicService_call cb req w = (w\<lparr>trace := trace w @ hit_order\<rparr>, Inl e)"
  by (simp add: MusicService_call_def io_defs hit_order_def)

lemma fails_generate_miss:
  "load_audio cb (file_path req) = Inr audio \<and> extract_mfcc cb audio = Inr raw \<and>
   denoise cb raw = Inr f \<and> get_chords (cache w) f = None \<and> suggest cb f = Inr chs \<and>
   generate cb chs = Inl e \<Longrightarrow>
     MusicService_call cb req w =
       (w\<lparr>cache := set_chords (cache w) f chs, trace := trace w @ miss_order\<rparr>, Inl e)"
  by (simp add: MusicService_call_def io_defs miss_order_def)

lemma abort_origin:
  assumes "MusicService_call cb req w = (w', Inl e)"
  shows "load_audio cb (file_path req) = Inl e \<or>
     (\<exists>audio. load_audio cb (file_path req) = Inr audio \<and>
        (extract_mfcc cb audio = Inl e \<or>
         (\<exists>raw. extract_mfcc cb audio = Inr raw \<and>
            (denoise cb raw = Inl e \<or>
             (\<exists>f. denoise cb raw = Inr f \<and>
                (case get_chords (cache w) f of
                   Some chs \<Rightarrow> generate cb chs = Inl e
                 | None \<Rightarrow>
                     suggest cb f = Inl e \<or>
                     (\<exists>chs. suggest cb f = Inr chs \<and> generate cb chs = Inl e)))))))"
  using assms
  by (auto simp: MusicService_call_def io_defs split: sum.splits option.splits prod.splits)

lemma window_failure:
  assumes "process_task s = Running" "next_window n (buffer s) = Some (features, b)"
    "suggest cb features = Inl e" "s' = step cb sv (Window n r) s"
  shows "process_task s' = Failed e \<and> endpoint s' = endpoint s \<and> ping_task s' = ping_task s \<and>
         registered s' = registered s \<and> outbound (log s') = outbound (log s) \<and>
         (\<forall>m r'. step cb sv (Window m r') s' = s')"
  using assms by (auto simp: step_def process_audio_def)

lemma failed_accompaniment:
  "MusicService_call demo_no_accompaniment song (demo_world True) =
     (\<lparr>cache = set_chords (demo_cache True) [1, 2, 3] [str ''C'', str ''G''],
       trace = miss_order\<rparr>, Inl RuntimeError)"
  by (simp add: MusicService_call_def io_defs demo_defs demo_no_accompaniment_def miss_order_def)

text \<open>
  C5, as amended. A failing collaborator aborts the unit of work with its own exception,
  unchanged. When decode, feature extraction or denoising fails, or the suggester fails
  after a miss, or the accompaniment generator fails after a hit, \<open>MusicService.__call__\<close>
  ends with that exception after the calls made so far and the cache is as it was. When
  the accompaniment generator fails after a miss, the call ends with that exception after
  the seven calls of a miss, the store included: the chords of the successful suggestion
  have been handed to the cache. Conversely an abort always stems from one of these
  failures. In a streaming session, when the suggester fails on a window, the processing
  task ends with that exception and nothing is sent; the endpoint, the heartbeat and the
  registration are as before, and no later window is processed.
\<close>

theorem collaborator_failure:
  "(load_audio cb (file_path req) = Inl e \<longrightarrow>
      MusicService_call cb req w = (w\<lparr>trace := trace w @ [Call Decode Awaited]\<rparr>, Inl e)) \<and>
   (load_audio cb (file_path req) = Inr audio \<and> extract_mfcc cb audio = Inl e \<longrightarrow>
      MusicService_call cb req w =
        (w\<lparr>trace := trace w @ [Call Decode Awaited, Call Extract Threadpool]\<rparr>, Inl e)) \<and>
   (load_audio cb (file_path req) = Inr audio \<and> extract_mfcc cb audio = Inr raw \<and>
    denoise cb raw = Inl e \<longrightarrow>
      MusicService_call cb req w =
        (w\<lparr>trace := trace w @
             [Call Decode Awaited, Call Extract Threadpool, Call Denoise Threadpool]\<rparr>, Inl e)) \<and>
   (load_audio cb (file_path req) = Inr audio \<and> extract_mfcc cb audio = Inr raw \<and>
    denoise cb raw = Inr f \<and> get_chords (cache w) f = None \<and> suggest cb f = Inl e \<longrightarrow>
      MusicService_call cb req w =
        (w\<lparr>trace := trace w @
             [Call Decode Awaited, Call Extract Threadpool, Call Denoise Threadpool,
              Call CacheGet Awaited, Call Suggest Threadpool]\<rparr>, Inl e)) \<and>
   (load_audio cb (file_path req) = Inr audio \<and> extract_mfcc cb audio = Inr raw \<and>
    denoise cb raw = Inr f \<and> get_chords (cache w) f = Some chs \<and> generate cb chs = Inl e \<longrightarrow>
      MusicService_call cb req w = (w\<lparr>trace := trace w @ hit_order\<rparr>, Inl e)) \<and>
   (load_audio cb (file_path req) = Inr audio \<and> extract_mfcc cb audio = Inr raw \<and>
    denoise cb raw = Inr f \<and> get_chords (cache w) f = None \<and> suggest cb f = Inr chs \<and>
    generate cb chs = Inl e \<longrightarrow>
      MusicService_call cb req w =
        (w\<lparr>cache := set_chords (cache w) f chs, trace := trace w @ miss_order\<rparr>, Inl e)) \<and>
   (\<forall>w' x. MusicService_call cb req w = (w', Inl x) \<longrightarrow>
      load_audio cb (file_path req) = Inl x \<or>
      (\<exists>audio. load_audio cb (file_path req) = Inr audio \<and>
         (extract_mfcc cb audio = Inl x \<or>
          (\<exists>raw. extract_mfcc cb audio = Inr raw \<and>
             (denoise cb raw = Inl x \<or>
              (\<exists>f. denoise cb raw = Inr f \<and>
                 (case get_chords (cache w) f of
                    Some chs \<Rightarrow> generate cb chs = Inl x
                  | None \<Rightarrow>
                      suggest cb f = Inl x \<or>
                      (\<exists>chs. suggest cb f = Inr chs \<and> generate cb chs = Inl x)))))))) \<and>
   (process_task s = Running \<and> next_window n (buffer s) = Some (features, b) \<and>
    suggest cb' features = Inl e' \<longrightarrow>
      process_task (step cb' sv (Window n r) s) = Failed e' \<and>
      endpoint (step cb' sv (Window n r) s) = endpoint s \<and>
      ping_task (step cb' sv (Window n r) s) = ping_task s \<and>
      registered (step cb' sv (Window n r) s) = registered s \<and>
      outbound (log (step cb' sv (Window n r) s)) = outbound (log s) \<and>
      (\<forall>m r'. step cb' sv (Window m r') (step cb' sv (Window n r) s) =
         step cb' sv (Window n r) s))"
proof -
  have origin: "\<forall>w' x. MusicService_call cb req w = (w', Inl x) \<longrightarrow>
      load_audio cb (file_path req) = Inl x \<or>
      (\<exists>audio. load_audio cb (file_path req) = Inr audio \<and>
         (extract_mfcc cb audio = Inl x \<or>
          (\<exists>raw. extract_mfcc cb audio = Inr raw \<and>
             (denoise cb raw = Inl x \<or>
              (\<exists>f. denoise cb raw = Inr f \<and>
                 (case get_chords (cache w) f of
                    Some chs \<Rightarrow> generate cb chs = Inl x
                  | None \<Rightarrow>
                      suggest cb f = Inl x \<or>
                      (\<exists>chs. suggest cb f = Inr chs \<and> generate cb chs = Inl x)))))))"
    by (intro allI impI) (rule abort_origin)
  have streaming: "process_task s = Running \<and> next_window n (buffer s) = Some (features, b) \<and>
    suggest cb' features = Inl e' \<longrightarrow>
      process_task (step cb' sv (Window n r) s) = Failed e' \<and>
      endpoint (step cb' sv (Window n r) s) = endpoint s \<and>
      ping_task (step cb' sv (Window n r) s) = ping_task s \<and>
      registered (step cb' sv (Window n r) s) = registered s \<and>
      outbound (log (step cb' sv (Window n r) s)) = outbound (log s) \<and>
      (\<forall>m r'. step cb' sv (Window m r') (step cb' sv (Window n r) s) =
         step cb' sv (Window n r) s)"
    using window_failure[of s n features b cb' e' "step cb' sv (Window n r) s" sv r] by blast
  show ?thesis
    by (intro conjI impI origin streaming)
      (erule fails_decode fails_extract fails_denoise fails_suggest fails_generate_hit
         fails_generate_miss)+
qed

theorem collaborator_failure_witness:
  "load_audio demo (file_path missing) = Inl OSError \<and>
   MusicService_call demo missing (demo_world True) =
     ((demo_world True)\<lparr>trace := trace (demo_world True) @ [Call Decode Awaited]\<rparr>,
      Inl OSError) \<and>
   (load_audio demo_no_features (file_path song) = Inr [1, 2, 3] \<and>
    extract_mfcc demo_no_features [1, 2, 3] = Inl RuntimeError) \<and>
   MusicService_call demo_no_features song (demo_world True) =
     ((demo_world True)\<lparr>trace := trace (demo_world True) @
         [Call Decode Awaited, Call Extract Threadpool]\<rparr>, Inl RuntimeError) \<and>
   (load_audio demo_no_denoise (file_path song) = Inr [1, 2, 3] \<and>
    extract_mfcc demo_no_denoise [1, 2, 3] = Inr [1, 2, 3] \<and>
    denoise demo_no_denoise [1, 2, 3] = Inl RuntimeError) \<and>
   MusicService_call demo_no_denoise song (demo_world True) =
     ((demo_world True)\<lparr>trace := trace (demo_world True) @
         [Call Decode Awaited, Call Extract Threadpool, Call Denoise Threadpool]\<rparr>,
      Inl RuntimeError) \<and>
   (load_audio demo (file_path silence) = Inr [0, 0] \<and> extract_mfcc demo [0, 0] = Inr [0, 0] \<and>
    denoise demo [0, 0] = Inr [0, 0] \<and> get_chords (cache (demo_world True)) [0, 0] = None \<and>
    suggest demo [0, 0] = Inl RuntimeError) \<and>
   MusicService_call demo silence (demo_world True) =
     ((demo_world True)\<lparr>trace := trace (demo_world True) @
         [Call Decode Awaited, Call Extract Threadpool, Call Denoise Threadpool,
          Call CacheGet Awaited, Call Suggest Threadpool]\<rparr>, Inl RuntimeError) \<and>
   (load_audio demo_no_accompaniment (file_path song) = Inr [1, 2, 3] \<and>
    extract_mfcc demo_no_accompaniment [1, 2, 3] = Inr [1, 2, 3] \<and>
    denoise demo_no_accompaniment [1, 2, 3] = Inr [1, 2, 3] \<and>
    get_chords (cache after_song) [1, 2, 3] = Some [str ''C'', str ''G''] \<and>
    generate demo_no_accompaniment [str ''C'', str ''G''] = Inl RuntimeError) \<and>
   MusicService_call demo_no_accompaniment song after_song =
     (after_song\<lparr>trace := trace after_song @ hit_order\<rparr>, Inl RuntimeError) \<and>
   (load_audio demo_no_accompaniment (file_path song) = Inr [1, 2, 3] \<and>
    extract_mfcc demo_no_accompaniment [1, 2, 3] = Inr [1, 2, 3] \<and>
    denoise demo_no_accompaniment [1, 2, 3] = Inr [1, 2, 3] \<and>
    get_chords (cache (demo_world True)) [1, 2, 3] = None \<and>
    suggest demo_no_accompaniment [1, 2, 3] = Inr [str ''C'', str ''G''] \<and>
    generate demo_no_accompaniment [str ''C'', str ''G''] = Inl RuntimeError) \<and>
   MusicService_call demo_no_accompaniment song (demo_world True) =
     ((demo_world True)\<lparr>cache := set_chords (cache (demo_world True)) [1, 2, 3]
                                   [str ''C'', str ''G''],
        trace := trace (demo_world True) @ miss_order\<rparr>, Inl RuntimeError) \<and>
   (process_task (step demo strict_str (Recv (Json (envelope [0])) None) fresh) = Running \<and>
    next_window 1 (buffer (step demo strict_str (Recv (Json (envelope [0])) None) fresh)) =
      Some ([0], \<lparr>backlog = [], ceiling = 1024, closed = False\<rparr>) \<and>
    suggest demo [0] = Inl RuntimeError) \<and>
   process_task (step demo strict_str (Window 1 None)
      (step demo strict_str (Recv (Json (envelope [0])) None) fresh)) = Failed RuntimeError \<and>
   endpoint (step demo strict_str (Window 1 None)
      (step demo strict_str (Recv (Json (envelope [0])) None) fresh)) =
     endpoint (step demo strict_str (Recv (Json (envelope [0])) None) fresh)"
proof -
  have h1: "load_audio demo (file_path missing) = Inl OSError"
    by (simp add: demo_def missing_def str_def)
  from collaborator_failure[where cb = demo and req = missing and w = "demo_world True"
      and e = OSError] h1
  have c1: "MusicService_call demo missing (demo_world True) =
     ((demo_world True)\<lparr>trace := trace (demo_world True) @ [Call Decode Awaited]\<rparr>,
      Inl OSError)"
    by blast
  have h2: "load_audio demo_no_features (file_path song) = Inr [1, 2, 3] \<and>
    extract_mfcc demo_no_features [1, 2, 3] = Inl RuntimeError"
    by (simp add: demo_no_features_def demo_defs)
  from collaborator_failure[where cb = demo_no_features and req = song
      and w = "demo_world True" and audio = "[1, 2, 3]" and e = RuntimeError] h2
  have c2: "MusicService_call demo_no_features song (demo_world True) =
     ((demo_world True)\<lparr>trace := trace (demo_world True) @
         [Call Decode Awaited, Call Extract Threadpool]\<rparr>, Inl RuntimeError)"
    by blast
  have h3: "load_audio demo_no_denoise (file_path song) = Inr [1, 2, 3] \<and>
    extract_mfcc demo_no_denoise [1, 2, 3] = Inr [1, 2, 3] \<and>
    denoise demo_no_denoise [1, 2, 3] = Inl RuntimeError"
    by (simp add: demo_no_denoise_def demo_defs)
  from collaborator_failure[where cb = demo_no_denoise and req = song
      and w = "demo_world True" and audio = "[1, 2, 3]" and raw = "[1, 2, 3]"
      and e = RuntimeError] h3
  have c3: "MusicService_call demo_no_denoise song (demo_world True) =
     ((demo_world True)\<lparr>trace := trace (demo_world True) @
         [Call Decode Awaited, Call Extract Threadpool, Call Denoise Threadpool]\<rparr>,
      Inl RuntimeError)"
    by blast
  have h4: "load_audio demo (file_path silence) = Inr [0, 0] \<and>
    extract_mfcc demo [0, 0] = Inr [0, 0] \<and> denoise demo [0, 0] = Inr [0, 0] \<and>
    get_chords (cache (demo_world True)) [0, 0] = None \<and> suggest demo [0, 0] = Inl RuntimeError"
    by (simp add: silence_def demo_defs)
  from collaborator_failure[where cb = demo and req = silence and w = "demo_world True"
      and audio = "[0, 0]" and raw = "[0, 0]" and f = "[0, 0]" and e = RuntimeError] h4
  have c4: "MusicService_call demo silence (demo_world True) =
     ((demo_world True)\<lparr>trace := trace (demo_world True) @
         [Call Decode Awaited, Call Extract Threadpool, Call Denoise Threadpool,
          Call CacheGet Awaited, Call Suggest Threadpool]\<rparr>, Inl RuntimeError)"
    by blast
  have h5: "load_audio demo_no_accompaniment (file_path song) = Inr [1, 2, 3] \<and>
    extract_mfcc demo_no_accompaniment [1, 2, 3] = Inr [1, 2, 3] \<and>
    denoise demo_no_accompaniment [1, 2, 3] = Inr [1, 2, 3] \<and>
    get_chords (cache after_song) [1, 2, 3] = Some [str ''C'', str ''G''] \<and>
    generate demo_no_accompaniment [str ''C'', str ''G''] = Inl RuntimeError"
    by (simp add: after_song_lookup) (simp add: demo_no_accompaniment_def demo_defs)
  from collaborator_failure[where cb = demo_no_accompaniment and req = song
      and w = after_song and audio = "[1, 2, 3]" and raw = "[1, 2, 3]" and f = "[1, 2, 3]"
      and chs = "[str ''C'', str ''G'']" and e = RuntimeError] h5
  have c5: "MusicService_call demo_no_accompaniment song after_song =
     (after_song\<lparr>trace := trace after_song @ hit_order\<rparr>, Inl RuntimeError)"
    by blast
  have h6: "load_audio demo_no_accompaniment (file_path song) = Inr [1, 2, 3] \<and>
    extract_mfcc demo_no_accompaniment [1, 2, 3] = Inr [1, 2, 3] \<and>
    denoise demo_no_accompaniment [1, 2, 3] = Inr [1, 2, 3] \<and>
    get_chords (cache (demo_world True)) [1, 2, 3] = None \<and>
    suggest demo_no_accompaniment [1, 2, 3] = Inr [str ''C'', str ''G''] \<and>
    generate demo_no_accompaniment [str ''C'', str ''G''] = Inl RuntimeError"
    by (simp add: demo_no_accompaniment_def demo_defs)
  from collaborator_failure[where cb = demo_no_accompaniment and req = song
      and w = "demo_world True" and audio = "[1, 2, 3]" and raw = "[1, 2, 3]"
      and f = "[1, 2, 3]" and chs = "[str ''C'', str ''G'']" and e = RuntimeError] h6
  have c6: "MusicService_call demo_no_accompaniment song (demo_world True) =
     ((demo_world True)\<lparr>cache := set_chords (cache (demo_world True)) [1, 2, 3]
                                   [str ''C'', str ''G''],
        trace := trace (demo_world True) @ miss_order\<rparr>, Inl RuntimeError)"
    by blast
  have h7: "process_task (step demo strict_str (Recv (Json (envelope [0])) None) fresh) = Running \<and>
    next_window 1 (buffer (step demo strict_str (Recv (Json (envelope [0])) None) fresh)) =
      Some ([0], \<lparr>backlog = [], ceiling = 1024, closed = False\<rparr>) \<and>
    suggest demo [0] = Inl RuntimeError"
    by (simp add: one_bad_chunk next_window_def) (simp add: demo_defs)
  note st = collaborator_failure[where s = "step demo strict_str (Recv (Json (envelope [0])) None) fresh"
      and n = 1 and features = "[0]" and b = "\<lparr>backlog = [], ceiling = 1024, closed = False\<rparr>"
      and cb' = demo and e' = RuntimeError and sv = strict_str and r = None,
      THEN conjunct2, THEN conjunct2, THEN conjunct2, THEN conjunct2, THEN conjunct2,
      THEN conjunct2, THEN conjunct2, THEN mp, OF h7]
  have c7: "process_task (step demo strict_str (Window 1 None)
      (step demo strict_str (Recv (Json (envelope [0])) None) fresh)) = Failed RuntimeError \<and>
   endpoint (step demo strict_str (Window 1 None)
      (step demo strict_str (Recv (Json (envelope [0])) None) fresh)) =
     endpoint (step demo strict_str (Recv (Json (envelope [0])) None) fresh)"
    using st[THEN conjunct1] st[THEN conjunct2, THEN conjunct1] by (rule conjI)
  from h1 c1 h2 c2 h3 c3 h4 c4 h5 c5 h6 c6 h7 c7 show ?thesis by blast
qed

text \<open>
  The request for \<open>song.wav\<close> with a failing accompaniment generator, on an empty
  reachable cache: the unit of work ends with \<open>RuntimeError\<close>, and the cache, which had
  no entry for the features, now holds the chords.
\<close>

theorem failed_unit_writes_cache:
  "MusicService_call demo_no_accompaniment song (demo_world True) =
     (\<lparr>cache = set_chords (demo_cache True) [1, 2, 3] [str ''C'', str ''G''],
       trace = miss_order\<rparr>, Inl RuntimeError) \<and>
   get_chords (demo_cache True) [1, 2, 3] = None \<and>
   get_chords (set_chords (demo_cache True) [1, 2, 3] [str ''C'', str ''G'']) [1, 2, 3] =
     Some [str ''C'', str ''G''] \<and>
   Call CacheSet Awaited \<in> set miss_order"
  by (simp add: failed_accompaniment) (simp add: demo_defs miss_order_def)

subsection \<open>Outbound messages\<close>







subsection \<open>Accepted envelopes\<close>

lemma str_encode_error: "str_encode d = Inl e \<Longrightarrow> e = UnicodeEncodeError"
  by (induction d arbitrary: e) (auto split: option.splits sum.splits)

lemma euro_encoded: "str_encode [0x41, 0x20AC] = Inr [0x41, 0xE2, 0x82, 0xAC]"
  by (simp add: utf8_def)

lemma surrogate_unencodable: "str_encode [0xD800] = Inl UnicodeEncodeError"
  by (simp add: utf8_def)

lemma euro_step:
  "step demo strict_str
     (Recv (Json (JObject [(str ''seq'', JNumber 7), (str ''data'', JString [0x41, 0x20AC])]))
        None) fresh =
   \<lparr>registered = True,
    buffer = \<lparr>backlog = [0x41, 0xE2, 0x82, 0xAC], ceiling = 1024, closed = False\<rparr>,
    ping_task = Running, process_task = Running, endpoint = Receiving,
    log = [ManagerConnect, ManagerSend Ready, BufferAdd [0x41, 0xE2, 0x82, 0xAC],
           ManagerSend Ack]\<rparr>"
  by (simp add: session_defs str_def)

lemma surrogate_step:
  "step demo strict_str (Recv (Json (envelope [0xD800])) None) fresh =
   \<lparr>registered = False, buffer = \<lparr>backlog = [], ceiling = 1024, closed = False\<rparr>,
    ping_task = Cancelled, process_task = Cancelled, endpoint = Raised UnicodeEncodeError,
    log = [ManagerConnect, ManagerSend Ready, CancelPing, CancelProcess, ManagerDisconnect]\<rparr>"
  by (simp add: session_defs str_def)

lemma full_buffer_step:
  "step demo strict_str (Recv (Json (envelope (str ''AAAA''))) None) (websocket_accept 2 None) =
   \<lparr>registered = False, buffer = \<lparr>backlog = [], ceiling = 2, closed = False\<rparr>,
    ping_task = Cancelled, process_task = Cancelled, endpoint = Raised CapacityExceeded,
    log = [ManagerConnect, ManagerSend Ready, BufferAdd [65, 65, 65, 65],
           CancelPing, CancelProcess, ManagerDisconnect]\<rparr>"
  by (simp add: session_defs str_def)

text \<open>
  C10, as amended. A JSON object whose field \<open>data\<close> validates as a string passes
  \<open>WSMessage\<close> validation, whatever other fields it carries. With the endpoint in its
  receive loop: when the string has a UTF-8 encoding and the buffer takes the bytes,
  exactly those bytes are appended to the backlog, and the calls of the iteration are the
  append followed by the acknowledgment (and the teardown, when sending the acknowledgment
  raises). When the buffer refuses the bytes, or the string has no UTF-8 encoding, nothing
  is appended and nothing is sent, and the exception (\<open>CapacityExceeded\<close>,
  \<open>UnicodeEncodeError\<close>) leaves the receive loop: the session is torn down and the
  endpoint raises.
\<close>

theorem envelope_accepted:
  assumes "map_of items (str ''data'') = Some v" and "sv v = Some d"
    and "endpoint s = Receiving"
    and "s' = step cb sv (Recv (Json (JObject items)) r) s"
  shows "WSMessage sv (JObject items) = Inr d \<and>
     (str_encode d = Inr chunk \<and>
      length (backlog (buffer s)) + length chunk \<le> ceiling (buffer s) \<longrightarrow>
        backlog (buffer s') = backlog (buffer s) @ chunk \<and>
        log s' = log s @ [BufferAdd chunk, ManagerSend Ack] @
          (case r of None \<Rightarrow> [] | Some e \<Rightarrow> [CancelPing, CancelProcess, ManagerDisconnect])) \<and>
     (str_encode d = Inr chunk \<and>
      ceiling (buffer s) < length (backlog (buffer s)) + length chunk \<longrightarrow>
        buffer s' = buffer s \<and> outbound (log s') = outbound (log s) \<and>
        log s' = log s @ [BufferAdd chunk, CancelPing, CancelProcess, ManagerDisconnect] \<and>
        endpoint s' = Raised CapacityExceeded \<and> torn_down s') \<and>
     (str_encode d = Inl x \<longrightarrow>
        buffer s' = buffer s \<and> outbound (log s') = outbound (log s) \<and>
        log s' = log s @ [CancelPing, CancelProcess, ManagerDisconnect] \<and>
        endpoint s' = Raised UnicodeEncodeError \<and> torn_down s')"
  using assms str_encode_error[of d x]
  by (auto simp: WSMessage_def step_def receive_loop_def add_def Let_def split: option.splits)

theorem envelope_accepted_witness:
  "map_of [(str ''seq'', JNumber 7), (str ''data'', JString [0x41, 0x20AC])] (str ''data'') =
     Some (JString [0x41, 0x20AC]) \<and>
   strict_str (JString [0x41, 0x20AC]) = Some [0x41, 0x20AC] \<and>
   endpoint fresh = Receiving \<and>
   (str_encode [0x41, 0x20AC] = Inr [0x41, 0xE2, 0x82, 0xAC] \<and>
    length (backlog (buffer fresh)) + length [0x41, 0xE2, 0x82, 0xAC :: byte] \<le>
      ceiling (buffer fresh)) \<and>
   WSMessage strict_str
     (JObject [(str ''seq'', JNumber 7), (str ''data'', JString [0x41, 0x20AC])]) =
     Inr [0x41, 0x20AC] \<and>
   backlog (buffer (step demo strict_str
     (Recv (Json (JObject [(str ''seq'', JNumber 7), (str ''data'', JString [0x41, 0x20AC])]))
        None) fresh)) = backlog (buffer fresh) @ [0x41, 0xE2, 0x82, 0xAC] \<and>
   log (step demo strict_str
     (Recv (Json (JObject [(str ''seq'', JNumber 7), (str ''data'', JString [0x41, 0x20AC])]))
        None) fresh) = log fresh @ [BufferAdd [0x41, 0xE2, 0x82, 0xAC], ManagerSend Ack] \<and>
   map_of [(str ''data'', JString [0xD800])] (str ''data'') = Some (JString [0xD800]) \<and>
   strict_str (JString [0xD800]) = Some [0xD800] \<and>
   str_encode [0xD800] = Inl UnicodeEncodeError \<and>
   endpoint (step demo strict_str (Recv (Json (JObject [(str ''data'', JString [0xD800])])) None)
     fresh) = Raised UnicodeEncodeError \<and>
   torn_down (step demo strict_str
     (Recv (Json (JObject [(str ''data'', JString [0xD800])])) None) fresh)"
proof -
  have items: "map_of [(str ''seq'', JNumber 7), (str ''data'', JString [0x41, 0x20AC])]
      (str ''data'') = Some (JString [0x41, 0x20AC])"
    by (simp add: str_def)
  have valid: "strict_str (JString [0x41, 0x20AC]) = Some [0x41, 0x20AC]"
    by (simp add: strict_str_def)
  have receiving: "endpoint fresh = Receiving" by (simp add: fresh_eq)
  have encoded: "str_encode [0x41, 0x20AC] = Inr [0x41, 0xE2, 0x82, 0xAC]"
    by (rule euro_encoded)
  have fits: "length (backlog (buffer fresh)) + length [0x41, 0xE2, 0x82, 0xAC :: byte] \<le>
      ceiling (buffer fresh)"
    by (simp add: fresh_eq)
  from encoded fits
  have room: "str_encode [0x41, 0x20AC] = Inr [0x41, 0xE2, 0x82, 0xAC] \<and>
      length (backlog (buffer fresh)) + length [0x41, 0xE2, 0x82, 0xAC :: byte] \<le>
        ceiling (buffer fresh)"
    by (rule conjI)
  note euro = envelope_accepted[where sv = strict_str and v = "JString [0x41, 0x20AC]"
      and d = "[0x41, 0x20AC]" and s = fresh and cb = demo and r = None
      and chunk = "[0x41, 0xE2, 0x82, 0xAC]", OF items valid receiving refl]
  note passes = euro[THEN conjunct1]
  note taken = euro[THEN conjunct2, THEN conjunct1, THEN mp, OF room]
  note appended = taken[THEN conjunct1]
  from taken[THEN conjunct2] have acked: "log (step demo strict_str
     (Recv (Json (JObject [(str ''seq'', JNumber 7), (str ''data'', JString [0x41, 0x20AC])]))
        None) fresh) = log fresh @ [BufferAdd [0x41, 0xE2, 0x82, 0xAC], ManagerSend Ack]"
    by simp
  have items': "map_of [(str ''data'', JString [0xD800])] (str ''data'') = Some (JString [0xD800])"
    by simp
  have valid': "strict_str (JString [0xD800]) = Some [0xD800]"
    by (simp add: strict_str_def)
  note surrogate = envelope_accepted[where sv = strict_str and v = "JString [0xD800]"
      and d = "[0xD800]" and s = fresh and cb = demo and r = None
      and x = UnicodeEncodeError, OF items' valid' receiving refl,
      THEN conjunct2, THEN conjunct2, THEN conjunct2, THEN mp, OF surrogate_unencodable]
  note raised = surrogate[THEN conjunct2, THEN conjunct2, THEN conjunct2, THEN conjunct1]
  note down = surrogate[THEN conjunct2, THEN conjunct2, THEN conjunct2, THEN conjunct2]
  from items valid receiving room passes appended acked items' valid' surrogate_unencodable
    raised down
  show ?thesis by blast
qed

text \<open>
  The envelope \<open>{"data": "\ud800"}\<close> is a JSON object whose \<open>data\<close> is a string, a
  lone surrogate: it passes validation, \<open>encode\<close> raises, nothing is appended or
  acknowledged and the session is torn down. So is the session whose buffer, with a
  ceiling of two bytes, refuses the four bytes of \<open>{"data": "AAAA"}\<close>.
\<close>

theorem envelope_not_accepted:
  "WSMessage strict_str (envelope [0xD800]) = Inr [0xD800] \<and>
   step demo strict_str (Recv (Json (envelope [0xD800])) None) fresh =
     \<lparr>registered = False, buffer = \<lparr>backlog = [], ceiling = 1024, closed = False\<rparr>,
      ping_task = Cancelled, process_task = Cancelled, endpoint = Raised UnicodeEncodeError,
      log = [ManagerConnect, ManagerSend Ready, CancelPing, CancelProcess, ManagerDisconnect]\<rparr> \<and>
   WSMessage strict_str (envelope (str ''AAAA'')) = Inr (str ''AAAA'') \<and>
   step demo strict_str (Recv (Json (envelope (str ''AAAA''))) None) (websocket_accept 2 None) =
     \<lparr>registered = False, buffer = \<lparr>backlog = [], ceiling = 2, closed = False\<rparr>,
      ping_task = Cancelled, process_task = Cancelled, endpoint = Raised CapacityExceeded,
      log = [ManagerConnect, ManagerSend Ready, BufferAdd [65, 65, 65, 65],
             CancelPing, CancelProcess, ManagerDisconnect]\<rparr>"
  by (simp add: surrogate_step full_buffer_step)
     (simp add: WSMessage_def strict_str_def envelope_def)


end
